theory Spec2Isabelle
  imports Complex_Main
begin

section \<open>Gradient-bound estimators of \<^verbatim>\<open>privacy.py\<close>\<close>

text \<open>
  The two estimators \<^verbatim>\<open>compute_ReLU_bounds\<close> and \<^verbatim>\<open>compute_Tanh_bounds\<close> walk over
  \<^verbatim>\<open>model.modules()\<close>, look only at the \<^verbatim>\<open>nn.Linear\<close> modules and combine a few
  numbers. Scalars and tensor entries are modelled as \<^typ>\<open>real\<close>: the arithmetic is
  the exact one, rounding of the machine numbers is not part of the model. Python's
  unbounded integers are \<^typ>\<open>int\<close>, tensor dimensions are \<^typ>\<open>nat\<close>. Exceptions are
  values of the type \<open>error\<close>; a function that can raise returns \<open>error + 'a\<close>.
\<close>

subsection \<open>Tensors\<close>

datatype error = IndexError | RuntimeError

text \<open>A one-dimensional tensor is the list of its entries. A two-dimensional tensor
  carries its shape (\<^verbatim>\<open>W.shape[0]\<close>, \<^verbatim>\<open>W.shape[1]\<close>) and its rows.\<close>

record tensor2 =
  shape :: "nat \<times> nat"
  rows :: "real list list"

text \<open>\<^verbatim>\<open>torch.ones(n)\<close>\<close>

definition ones :: "nat \<Rightarrow> real list" where
  "ones n = replicate n 1"

text \<open>\<^verbatim>\<open>v * c\<close> for a one-dimensional tensor and a scalar\<close>

definition scale :: "real list \<Rightarrow> real \<Rightarrow> real list" where
  "scale v c = map (\<lambda>x. x * c) v"

text \<open>\<^verbatim>\<open>torch.ones_like(w)\<close>: the shape of \<open>w\<close>, every entry 1; the entries of \<open>w\<close>
  are not read.\<close>

definition ones_like :: "tensor2 \<Rightarrow> tensor2" where
  "ones_like w =
     \<lparr>shape = shape w, rows = replicate (fst (shape w)) (replicate (snd (shape w)) 1)\<rparr>"

text \<open>\<^verbatim>\<open>W * c\<close> for a two-dimensional tensor and a scalar\<close>

definition scale2 :: "tensor2 \<Rightarrow> real \<Rightarrow> tensor2" where
  "scale2 W c = \<lparr>shape = shape W, rows = map (\<lambda>r. map (\<lambda>x. x * c) r) (rows W)\<rparr>"

definition dot :: "real list \<Rightarrow> real list \<Rightarrow> real" where
  "dot r v = sum_list (map2 (*) r v)"

text \<open>\<^verbatim>\<open>W @ v\<close>: the matrix-vector product; torch raises a RuntimeError when the
  number of columns of \<open>W\<close> is not the length of \<open>v\<close>.\<close>

definition matvec :: "tensor2 \<Rightarrow> real list \<Rightarrow> error + real list" where
  "matvec W v =
     (if snd (shape W) \<noteq> length v then Inl RuntimeError
      else Inr (map (\<lambda>r. dot r v) (rows W)))"

text \<open>\<^verbatim>\<open>v.max().detach().item()\<close>: the largest entry; torch raises a RuntimeError on
  a tensor with no element.\<close>

definition tensor_max :: "real list \<Rightarrow> error + real" where
  "tensor_max v = (if v = [] then Inl RuntimeError else Inr (Max (set v)))"

text \<open>Python's built-in \<^verbatim>\<open>max(a, b)\<close>: the first argument unless the second is
  greater.\<close>

definition py_max :: "real \<Rightarrow> real \<Rightarrow> real" where
  "py_max a b = (if b > a then b else a)"

subsection \<open>Modules\<close>

text \<open>A module is an \<^verbatim>\<open>nn.Linear\<close> with its stored weight and bias, or anything
  else (an activation, a container). A model is the sequence \<^verbatim>\<open>model.modules()\<close>
  yields.\<close>

datatype nn_module = Linear tensor2 "real list" | Other_module

type_synonym model = "nn_module list"

subsection \<open>\<^verbatim>\<open>compute_ReLU_bounds\<close>\<close>

record relu_state =
  sample :: "real list"
  B_sigma :: real
  sum_mk_mkp1 :: int
  skip_first :: bool

text \<open>One pass of the body of the \<^verbatim>\<open>for\<close> loop.\<close>

fun ReLU_step :: "real \<Rightarrow> relu_state \<Rightarrow> nn_module \<Rightarrow> error + relu_state" where
  "ReLU_step c_p s (Linear w b) =
     (let W = scale2 (ones_like w) c_p in
      case matvec W (sample s) of
        Inl e \<Rightarrow> Inl e
      | Inr sample' \<Rightarrow>
          (case tensor_max sample' of
             Inl e \<Rightarrow> Inl e
           | Inr mx \<Rightarrow>
               Inr \<lparr>sample = sample',
                    B_sigma = py_max (B_sigma s) mx,
                    sum_mk_mkp1 =
                      (if skip_first s then sum_mk_mkp1 s
                       else sum_mk_mkp1 s + int (fst (shape W)) * int (snd (shape W))),
                    skip_first = False\<rparr>))"
| "ReLU_step c_p s Other_module = Inr s"

fun ReLU_loop :: "real \<Rightarrow> model \<Rightarrow> relu_state \<Rightarrow> error + relu_state" where
  "ReLU_loop c_p [] s = Inr s"
| "ReLU_loop c_p (layer # rest) s =
     (case ReLU_step c_p s layer of
        Inl e \<Rightarrow> Inl e
      | Inr s' \<Rightarrow> ReLU_loop c_p rest s')"

text \<open>The state before the loop; \<^verbatim>\<open>input_size[0]\<close> raises an IndexError on the empty
  tuple.\<close>

definition ReLU_init :: "nat list \<Rightarrow> real \<Rightarrow> error + relu_state" where
  "ReLU_init input_size input_bounds =
     (case input_size of
        [] \<Rightarrow> Inl IndexError
      | n # _ \<Rightarrow>
          Inr \<lparr>sample = scale (ones n) input_bounds, B_sigma = 0,
               sum_mk_mkp1 = 0, skip_first = True\<rparr>)"

text \<open>The state after the loop: its \<open>B_sigma\<close> and \<open>sum_mk_mkp1\<close> are the two
  numbers the function prints.\<close>

definition ReLU_run :: "model \<Rightarrow> real \<Rightarrow> nat list \<Rightarrow> real \<Rightarrow> error + relu_state" where
  "ReLU_run model c_p input_size input_bounds =
     (case ReLU_init input_size input_bounds of
        Inl e \<Rightarrow> Inl e
      | Inr s \<Rightarrow> ReLU_loop c_p model s)"

definition compute_ReLU_bounds ::
  "model \<Rightarrow> real \<Rightarrow> nat list \<Rightarrow> real \<Rightarrow> real \<Rightarrow> error + real" where
  "compute_ReLU_bounds model c_p input_size input_bounds B_sigma_p =
     (case ReLU_run model c_p input_size input_bounds of
        Inl e \<Rightarrow> Inl e
      | Inr s \<Rightarrow>
          Inr (2 * c_p * B_sigma s * (B_sigma_p ^ 2) * of_int (sum_mk_mkp1 s)))"

subsection \<open>\<^verbatim>\<open>compute_Tanh_bounds\<close>\<close>

record tanh_state =
  t_sum_mk_mkp1 :: int
  t_skip_first :: bool

fun Tanh_step :: "tanh_state \<Rightarrow> nn_module \<Rightarrow> tanh_state" where
  "Tanh_step s (Linear w b) =
     (if t_skip_first s then s\<lparr>t_skip_first := False\<rparr>
      else s\<lparr>t_sum_mk_mkp1 := t_sum_mk_mkp1 s + int (fst (shape w)) * int (snd (shape w))\<rparr>)"
| "Tanh_step s Other_module = s"

fun Tanh_loop :: "model \<Rightarrow> tanh_state \<Rightarrow> tanh_state" where
  "Tanh_loop [] s = s"
| "Tanh_loop (layer # rest) s = Tanh_loop rest (Tanh_step s layer)"

definition Tanh_run :: "model \<Rightarrow> tanh_state" where
  "Tanh_run model = Tanh_loop model \<lparr>t_sum_mk_mkp1 = 0, t_skip_first = True\<rparr>"

text \<open>Nothing in this function can raise: the arguments \<open>input_size\<close> and
  \<open>input_bounds\<close> are never read and no tensor operation is performed.\<close>

definition Tanh_B_sigma :: real where
  "Tanh_B_sigma = 1"

definition compute_Tanh_bounds ::
  "model \<Rightarrow> real \<Rightarrow> nat list \<Rightarrow> real \<Rightarrow> real \<Rightarrow> real" where
  "compute_Tanh_bounds model c_p input_size input_bounds B_sigma_p =
     2 * c_p * Tanh_B_sigma * (B_sigma_p ^ 2) * of_int (t_sum_mk_mkp1 (Tanh_run model))"

subsection \<open>The quantities of the specification\<close>

text \<open>The shapes of the linear layers of a model, in order.\<close>

fun linear_shapes :: "model \<Rightarrow> (nat \<times> nat) list" where
  "linear_shapes [] = []"
| "linear_shapes (Linear w b # rest) = shape w # linear_shapes rest"
| "linear_shapes (Other_module # rest) = linear_shapes rest"

text \<open>The sum of (output dimension \<times> input dimension) over every linear layer except
  the first.\<close>

definition sum_except_first :: "(nat \<times> nat) list \<Rightarrow> int" where
  "sum_except_first shapes = (\<Sum>(m, n) \<leftarrow> tl shapes. int m * int n)"

text \<open>The \<open>m \<times> n\<close> matrix with every entry \<open>c\<close>, and the product of a matrix (a list
  of rows) with a vector.\<close>

definition uniform_matrix :: "nat \<Rightarrow> nat \<Rightarrow> real \<Rightarrow> real list list" where
  "uniform_matrix m n c = replicate m (replicate n c)"

definition mat_times_vec :: "real list list \<Rightarrow> real list \<Rightarrow> real list" where
  "mat_times_vec M v = map (\<lambda>r. (\<Sum>(a, x) \<leftarrow> zip r v. a * x)) M"

text \<open>The vectors produced after each multiplication, in layer order.\<close>

fun propagated :: "real \<Rightarrow> real list \<Rightarrow> (nat \<times> nat) list \<Rightarrow> real list list" where
  "propagated c v [] = []"
| "propagated c v ((m, n) # shapes) =
     (let v' = mat_times_vec (uniform_matrix m n c) v in v' # propagated c v' shapes)"

text \<open>The largest of 0 and the maximum entries of the propagated vectors.\<close>

definition B_sigma_spec :: "real \<Rightarrow> nat \<Rightarrow> real \<Rightarrow> (nat \<times> nat) list \<Rightarrow> real" where
  "B_sigma_spec c input_size input_bounds shapes =
     Max (insert 0 ((\<lambda>v. Max (set v)) ` set (propagated c (replicate input_size input_bounds) shapes)))"

text \<open>The shapes chain from an input of length \<open>d\<close>: every layer's input dimension is
  the length of the vector it receives, and every layer has at least one output.\<close>

fun chained :: "nat \<Rightarrow> (nat \<times> nat) list \<Rightarrow> bool" where
  "chained d [] = True"
| "chained d ((m, n) # shapes) = (n = d \<and> 0 < m \<and> chained m shapes)"

text \<open>The sum of (output dimension \<times> input dimension) over every linear layer.\<close>

definition sum_all :: "(nat \<times> nat) list \<Rightarrow> int" where
  "sum_all shapes = (\<Sum>(m, n) \<leftarrow> shapes. int m * int n)"

text \<open>The two numbers \<^verbatim>\<open>compute_ReLU_bounds\<close> prints before it returns.\<close>

definition ReLU_B_sigma :: "model \<Rightarrow> real \<Rightarrow> nat list \<Rightarrow> real \<Rightarrow> error + real" where
  "ReLU_B_sigma model c_p input_size input_bounds =
     (case ReLU_run model c_p input_size input_bounds of
        Inl e \<Rightarrow> Inl e
      | Inr s \<Rightarrow> Inr (B_sigma s))"

definition ReLU_sum_mk_mkp1 :: "model \<Rightarrow> real \<Rightarrow> nat list \<Rightarrow> real \<Rightarrow> error + int" where
  "ReLU_sum_mk_mkp1 model c_p input_size input_bounds =
     (case ReLU_run model c_p input_size input_bounds of
        Inl e \<Rightarrow> Inl e
      | Inr s \<Rightarrow> Inr (sum_mk_mkp1 s))"

subsection \<open>The loop of \<^verbatim>\<open>compute_ReLU_bounds\<close>, as a function of the shapes\<close>

text \<open>What one pass of the loop does at a linear layer of shape \<open>(m, n)\<close>, and the
  loop over a list of shapes. \<open>ReLU_step_Linear\<close> and \<open>ReLU_loop_shapes\<close> below
  prove that the loop of the source computes exactly this.\<close>

fun shape_step :: "real \<Rightarrow> relu_state \<Rightarrow> nat \<times> nat \<Rightarrow> error + relu_state" where
  "shape_step c_p s (m, n) =
     (if n \<noteq> length (sample s) \<or> m = 0 then Inl RuntimeError
      else Inr \<lparr>sample = replicate m (c_p * sum_list (sample s)),
                B_sigma = max (B_sigma s) (c_p * sum_list (sample s)),
                sum_mk_mkp1 =
                  (if skip_first s then sum_mk_mkp1 s else sum_mk_mkp1 s + int m * int n),
                skip_first = False\<rparr>)"

fun shape_loop :: "real \<Rightarrow> (nat \<times> nat) list \<Rightarrow> relu_state \<Rightarrow> error + relu_state" where
  "shape_loop c_p [] s = Inr s"
| "shape_loop c_p (sh # rest) s =
     (case shape_step c_p s sh of Inl e \<Rightarrow> Inl e | Inr s' \<Rightarrow> shape_loop c_p rest s')"

subsection \<open>Example networks\<close>

text \<open>A discriminator with one hidden layer, input dimension 4, hidden dimension 3,
  output dimension 2, as \<^verbatim>\<open>modules()\<close> lists it: the model itself, its container, and
  the layers with an activation between them. The stored weights are parameters.\<close>

definition net_4_3_2 :: "real list list \<Rightarrow> real list list \<Rightarrow> model" where
  "net_4_3_2 w1 w2 =
     [Other_module, Other_module,
      Linear \<lparr>shape = (3, 4), rows = w1\<rparr> [0, 0, 0],
      Other_module,
      Linear \<lparr>shape = (2, 3), rows = w2\<rparr> [0, 0]]"

text \<open>Two such networks with the same shapes and different stored weights.\<close>

definition net_a :: model where
  "net_a = net_4_3_2 (replicate 3 (replicate 4 (1/2))) (replicate 2 (replicate 3 (- 1/4)))"

definition net_b :: model where
  "net_b = net_4_3_2 (replicate 3 (replicate 4 7)) (replicate 2 (replicate 3 100))"

text \<open>A single linear layer of shape \<open>m \<times> n\<close> with every weight \<open>x\<close>, and two such
  layers after each other.\<close>

definition single_layer :: "nat \<Rightarrow> nat \<Rightarrow> real \<Rightarrow> model" where
  "single_layer m n x =
     [Linear \<lparr>shape = (m, n), rows = replicate m (replicate n x)\<rparr> (replicate m 0)]"

definition two_layers :: "nat \<times> nat \<Rightarrow> nat \<times> nat \<Rightarrow> real \<Rightarrow> model" where
  "two_layers sh1 sh2 x =
     single_layer (fst sh1) (snd sh1) x @ [Other_module] @ single_layer (fst sh2) (snd sh2) x"

section \<open>The loops\<close>

subsection \<open>Tensor arithmetic with a uniform matrix\<close>

lemma sum_list_zip_replicate:
  "length v = n \<Longrightarrow> (\<Sum>(a, x) \<leftarrow> zip (replicate n c) v. a * x) = c * sum_list (v :: real list)"
proof (induction v arbitrary: n)
  case Nil
  then show ?case by simp
next
  case (Cons x v)
  then obtain k where "n = Suc k" "length v = k" by (cases n) auto
  with Cons.IH [of k] show ?case by (simp add: algebra_simps)
qed

lemma dot_replicate: "length v = n \<Longrightarrow> dot (replicate n c) v = c * sum_list v"
  using sum_list_zip_replicate [of v n c] by (simp add: dot_def)

lemma Max_replicate: "0 < m \<Longrightarrow> Max (set (replicate m (x::real))) = x"
  by simp

lemma mat_times_vec_uniform:
  "length v = n \<Longrightarrow> mat_times_vec (uniform_matrix m n c) v = replicate m (c * sum_list v)"
  by (simp add: mat_times_vec_def uniform_matrix_def sum_list_zip_replicate)

subsection \<open>The source's loop is the loop over the shapes\<close>

lemma ReLU_step_Linear:
  "ReLU_step c_p s (Linear w b) = shape_step c_p s (shape w)"
proof (cases "shape w")
  case (Pair m n)
  show ?thesis
  proof (cases "n \<noteq> length (sample s)")
    case True
    with Pair show ?thesis
      by (simp add: matvec_def scale2_def ones_like_def)
  next
    case False
    then have len: "length (sample s) = n" by simp
    have mv: "matvec (scale2 (ones_like w) c_p) (sample s) =
        Inr (replicate m (c_p * sum_list (sample s)))"
      using Pair len
      by (simp add: matvec_def scale2_def ones_like_def dot_replicate map_replicate_const)
    show ?thesis
    proof (cases "m = 0")
      case True
      with Pair len mv show ?thesis by (simp add: tensor_max_def)
    next
      case False
      with Pair len mv show ?thesis
        by (simp add: tensor_max_def Max_replicate py_max_def max_def scale2_def ones_like_def)
    qed
  qed
qed

lemma ReLU_loop_shapes: "ReLU_loop c_p model s = shape_loop c_p (linear_shapes model) s"
proof (induction model arbitrary: s)
  case Nil
  show ?case by simp
next
  case (Cons layer rest)
  show ?case
  proof (cases layer)
    case (Linear w b)
    with Cons show ?thesis
      by (simp add: ReLU_step_Linear del: ReLU_step.simps split: sum.splits)
  next
    case Other_module
    with Cons show ?thesis by simp
  qed
qed


lemma shape_step_ok:
  assumes "n = length (sample s)" "0 < m"
  shows "\<exists>s'. shape_step c_p s (m, n) = Inr s' \<and>
      sample s' = replicate m (c_p * sum_list (sample s)) \<and>
      B_sigma s' = max (B_sigma s) (c_p * sum_list (sample s)) \<and>
      sum_mk_mkp1 s' =
        (if skip_first s then sum_mk_mkp1 s else sum_mk_mkp1 s + int m * int n) \<and>
      skip_first s' = False"
  using assms by simp

subsection \<open>Shapes that do not chain make the loop fail\<close>


subsection \<open>Shapes that chain: the running maximum and the sum\<close>

lemma shape_loop_chained:
  "chained (length (sample s)) shapes \<Longrightarrow>
   \<exists>s'. shape_loop c_p shapes s = Inr s' \<and>
     B_sigma s' =
       Max (insert (B_sigma s) ((\<lambda>v. Max (set v)) ` set (propagated c_p (sample s) shapes))) \<and>
     sum_mk_mkp1 s' =
       sum_mk_mkp1 s + (if skip_first s then sum_except_first shapes else sum_all shapes)"
proof (induction shapes arbitrary: s)
  case Nil
  then show ?case by (simp add: sum_except_first_def sum_all_def)
next
  case (Cons sh shapes)
  obtain m n where sh: "sh = (m, n)" by (cases sh)
  with Cons.prems have nm: "n = length (sample s)" "0 < m" and ch: "chained m shapes"
    by simp_all
  from shape_step_ok [OF nm, of c_p] obtain s' where
    s': "shape_step c_p s (m, n) = Inr s'"
      "sample s' = replicate m (c_p * sum_list (sample s))"
      "B_sigma s' = max (B_sigma s) (c_p * sum_list (sample s))"
      "sum_mk_mkp1 s' =
         (if skip_first s then sum_mk_mkp1 s else sum_mk_mkp1 s + int m * int n)"
      "skip_first s' = False"
    by blast
  from ch s'(2) have "chained (length (sample s')) shapes" by simp
  from Cons.IH [OF this] obtain s'' where
    s'': "shape_loop c_p shapes s' = Inr s''"
      "B_sigma s'' =
         Max (insert (B_sigma s') ((\<lambda>v. Max (set v)) ` set (propagated c_p (sample s') shapes)))"
      "sum_mk_mkp1 s'' =
         sum_mk_mkp1 s' + (if skip_first s' then sum_except_first shapes else sum_all shapes)"
    by blast
  have loop: "shape_loop c_p (sh # shapes) s = Inr s''"
    using sh s'(1) s''(1) by (simp del: shape_step.simps)
  have v': "mat_times_vec (uniform_matrix m n c_p) (sample s) = sample s'"
    using nm s'(2) by (simp add: mat_times_vec_uniform)
  have mx: "Max (set (sample s')) = c_p * sum_list (sample s)"
    using nm s'(2) by (simp add: Max_replicate)
  let ?A = "(\<lambda>v. Max (set v)) ` set (propagated c_p (sample s') shapes)"
  have fin: "finite ?A" by simp
  have "Max (insert (B_sigma s)
          ((\<lambda>v. Max (set v)) ` set (propagated c_p (sample s) (sh # shapes))))
      = Max (insert (B_sigma s) (insert (c_p * sum_list (sample s)) ?A))"
    using sh v' mx by (simp add: Let_def)
  also have "\<dots> = Max (insert (max (B_sigma s) (c_p * sum_list (sample s))) ?A)"
  proof (cases "?A = {}")
    case True
    then show ?thesis by simp
  next
    case False
    with fin show ?thesis by (simp add: max.assoc)
  qed
  finally have B: "B_sigma s'' =
      Max (insert (B_sigma s)
        ((\<lambda>v. Max (set v)) ` set (propagated c_p (sample s) (sh # shapes))))"
    using s''(2) s'(3) by simp
  have S: "sum_mk_mkp1 s'' = sum_mk_mkp1 s +
      (if skip_first s then sum_except_first (sh # shapes) else sum_all (sh # shapes))"
    using s''(3) s'(4,5) sh by (simp add: sum_except_first_def sum_all_def)
  from loop B S show ?case by blast
qed

subsection \<open>The whole run\<close>

lemma ReLU_run_shapes:
  "ReLU_run model c_p (d # rest) input_bounds =
     shape_loop c_p (linear_shapes model)
       \<lparr>sample = replicate d input_bounds, B_sigma = 0, sum_mk_mkp1 = 0, skip_first = True\<rparr>"
  by (simp add: ReLU_run_def ReLU_init_def ReLU_loop_shapes scale_def ones_def)

lemma ReLU_run_no_size: "ReLU_run model c_p [] input_bounds = Inl IndexError"
  by (simp add: ReLU_run_def ReLU_init_def)


lemma ReLU_run_chained:
  assumes "chained d (linear_shapes model)"
  shows "\<exists>s. ReLU_run model c_p (d # rest) input_bounds = Inr s \<and>
     B_sigma s = B_sigma_spec c_p d input_bounds (linear_shapes model) \<and>
     sum_mk_mkp1 s = sum_except_first (linear_shapes model)"
proof -
  let ?s0 = "\<lparr>sample = replicate d input_bounds, B_sigma = 0, sum_mk_mkp1 = 0,
    skip_first = True\<rparr>"
  from assms have "chained (length (sample ?s0)) (linear_shapes model)" by simp
  from shape_loop_chained [OF this, of c_p] show ?thesis
    by (simp add: ReLU_run_shapes B_sigma_spec_def)
qed

subsection \<open>The loop of \<^verbatim>\<open>compute_Tanh_bounds\<close>\<close>

lemma Tanh_loop_sum:
  "t_sum_mk_mkp1 (Tanh_loop model s) =
     t_sum_mk_mkp1 s +
       (if t_skip_first s then sum_except_first (linear_shapes model)
        else sum_all (linear_shapes model))"
proof (induction model arbitrary: s)
  case Nil
  show ?case by (simp add: sum_except_first_def sum_all_def)
next
  case (Cons layer rest)
  show ?case
  proof (cases layer)
    case (Linear w b)
    obtain m n where "shape w = (m, n)" by (cases "shape w")
    with Linear Cons [of "Tanh_step s layer"] show ?thesis
      by (simp add: sum_except_first_def sum_all_def)
  next
    case Other_module
    with Cons [of s] show ?thesis by simp
  qed
qed

lemma Tanh_run_sum: "t_sum_mk_mkp1 (Tanh_run model) = sum_except_first (linear_shapes model)"
  by (simp add: Tanh_run_def Tanh_loop_sum)

lemma sum_all_nonneg: "0 \<le> sum_all shapes"
  unfolding sum_all_def by (rule sum_list_nonneg) auto


subsection \<open>The shapes of the example networks\<close>

lemma linear_shapes_append:
  "linear_shapes (xs @ ys) = linear_shapes xs @ linear_shapes ys"
  by (induction xs rule: linear_shapes.induct) simp_all

lemma linear_shapes_net_4_3_2: "linear_shapes (net_4_3_2 w1 w2) = [(3, 4), (2, 3)]"
  by (simp add: net_4_3_2_def)

lemma linear_shapes_net_a: "linear_shapes net_a = [(3, 4), (2, 3)]"
  by (simp add: net_a_def linear_shapes_net_4_3_2)

lemma linear_shapes_net_b: "linear_shapes net_b = [(3, 4), (2, 3)]"
  by (simp add: net_b_def linear_shapes_net_4_3_2)

lemma linear_shapes_single_layer: "linear_shapes (single_layer m n x) = [(m, n)]"
  by (simp add: single_layer_def)

lemma linear_shapes_two_layers: "linear_shapes (two_layers sh1 sh2 x) = [sh1, sh2]"
  by (simp add: two_layers_def linear_shapes_append linear_shapes_single_layer)

lemmas example_shapes =
  linear_shapes_net_a linear_shapes_net_b linear_shapes_single_layer linear_shapes_two_layers

lemmas spec_eval =
  B_sigma_spec_def sum_except_first_def mat_times_vec_uniform Max_replicate Let_def
  sum_list_replicate

subsection \<open>Facts about the loop over the shapes\<close>







subsection \<open>The result of \<^verbatim>\<open>compute_Tanh_bounds\<close>\<close>

lemma compute_Tanh_bounds_shapes:
  "compute_Tanh_bounds model c_p input_size input_bounds B_sigma_p =
     2 * c_p * B_sigma_p ^ 2 * of_int (sum_except_first (linear_shapes model))"
  by (simp add: compute_Tanh_bounds_def Tanh_B_sigma_def Tanh_run_sum)

section \<open>The claims\<close>

text \<open>
  C1. When the shapes of the linear layers chain from the input size (each layer's
  input dimension is the length of the vector it receives, and no layer has zero
  outputs), \<^verbatim>\<open>compute_ReLU_bounds\<close> returns
  \<open>2 * c_p * B_sigma * B_sigma_p\<^sup>2 * sum_mk_mkp1\<close>, where \<open>B_sigma\<close> is the largest of 0 and
  the maximum entries of the vectors obtained by multiplying the all-\<open>input_bounds\<close>
  vector, layer after layer, by the matrix of the layer's shape filled with \<open>c_p\<close>, and
  \<open>sum_mk_mkp1\<close> is the sum of output \<times> input dimension over all linear layers but the
  first.
\<close>

theorem compute_ReLU_bounds_formula:
  assumes "chained d (linear_shapes model)"
  shows "ReLU_B_sigma model c_p (d # rest) input_bounds =
           Inr (B_sigma_spec c_p d input_bounds (linear_shapes model)) \<and>
         ReLU_sum_mk_mkp1 model c_p (d # rest) input_bounds =
           Inr (sum_except_first (linear_shapes model)) \<and>
         compute_ReLU_bounds model c_p (d # rest) input_bounds B_sigma_p =
           Inr (2 * c_p * B_sigma_spec c_p d input_bounds (linear_shapes model) * B_sigma_p ^ 2 *
                of_int (sum_except_first (linear_shapes model)))"
proof -
  from ReLU_run_chained [OF assms, of c_p rest input_bounds] obtain s where
    "ReLU_run model c_p (d # rest) input_bounds = Inr s"
    "B_sigma s = B_sigma_spec c_p d input_bounds (linear_shapes model)"
    "sum_mk_mkp1 s = sum_except_first (linear_shapes model)"
    by blast
  then show ?thesis
    by (simp add: compute_ReLU_bounds_def ReLU_B_sigma_def ReLU_sum_mk_mkp1_def)
qed

theorem compute_ReLU_bounds_formula_witness:
  "chained 4 (linear_shapes net_a) \<and>
   ReLU_B_sigma net_a (1/100) [4] 1 = Inr (4/100) \<and>
   ReLU_sum_mk_mkp1 net_a (1/100) [4] 1 = Inr 6 \<and>
   compute_ReLU_bounds net_a (1/100) [4] 1 1 = Inr (48/10000)"
proof -
  have h: "chained 4 (linear_shapes net_a)" by (simp add: example_shapes)
  from compute_ReLU_bounds_formula [OF h, of "1/100" "[]" 1 1] h show ?thesis
    by (simp add: example_shapes spec_eval)
qed

text \<open>
  C2. \<^verbatim>\<open>compute_Tanh_bounds\<close> uses \<open>B_sigma = 1\<close> and propagates nothing: for every
  model and all arguments it returns \<open>2 * c_p * B_sigma_p\<^sup>2 * sum_mk_mkp1\<close>, where
  \<open>sum_mk_mkp1\<close> is the sum of output \<times> input dimension over all linear layers but the
  first, and the result does not depend on \<open>input_size\<close> or \<open>input_bounds\<close>.
\<close>

theorem compute_Tanh_bounds_formula:
  "Tanh_B_sigma = 1 \<and>
   t_sum_mk_mkp1 (Tanh_run model) = sum_except_first (linear_shapes model) \<and>
   compute_Tanh_bounds model c_p input_size input_bounds B_sigma_p =
     2 * c_p * B_sigma_p ^ 2 * of_int (sum_except_first (linear_shapes model)) \<and>
   compute_Tanh_bounds model c_p input_size input_bounds B_sigma_p =
     compute_Tanh_bounds model c_p input_size' input_bounds' B_sigma_p"
  by (simp add: compute_Tanh_bounds_shapes Tanh_B_sigma_def Tanh_run_sum)

theorem compute_Tanh_bounds_formula_witness:
  "t_sum_mk_mkp1 (Tanh_run net_a) = 6 \<and>
   compute_Tanh_bounds net_a (1/100) [784] 1 3 = 108/100 \<and>
   compute_Tanh_bounds net_a (1/100) [784] 1 3 = compute_Tanh_bounds net_a (1/100) [] (-5) 3"
  using compute_Tanh_bounds_formula [of net_a "1/100" "[784]" 1 3 "[]" "-5"]
  by (simp add: example_shapes sum_except_first_def)









text \<open>
  C6. Two models whose linear layers have the same sequence of shapes give the same
  result in \<^verbatim>\<open>compute_ReLU_bounds\<close>, and the same result in \<^verbatim>\<open>compute_Tanh_bounds\<close>, for
  the same \<open>c_p\<close>, \<open>input_size\<close>, \<open>input_bounds\<close> and \<open>B_sigma_p\<close>, whatever weights and
  biases they store.
\<close>

theorem weights_do_not_matter:
  assumes "linear_shapes model1 = linear_shapes model2"
  shows "compute_ReLU_bounds model1 c_p input_size input_bounds B_sigma_p =
           compute_ReLU_bounds model2 c_p input_size input_bounds B_sigma_p \<and>
         compute_Tanh_bounds model1 c_p input_size input_bounds B_sigma_p =
           compute_Tanh_bounds model2 c_p input_size input_bounds B_sigma_p"
proof -
  have "ReLU_run model1 c_p input_size input_bounds = ReLU_run model2 c_p input_size input_bounds"
    using assms by (cases input_size) (simp_all add: ReLU_run_no_size ReLU_run_shapes)
  with assms show ?thesis
    by (simp add: compute_ReLU_bounds_def compute_Tanh_bounds_shapes)
qed

theorem weights_do_not_matter_witness:
  "linear_shapes net_a = linear_shapes net_b \<and> net_a \<noteq> net_b \<and>
   compute_ReLU_bounds net_a (1/100) [4] 1 1 = compute_ReLU_bounds net_b (1/100) [4] 1 1 \<and>
   compute_Tanh_bounds net_a (1/100) [4] 1 1 = compute_Tanh_bounds net_b (1/100) [4] 1 1"
proof -
  have h: "linear_shapes net_a = linear_shapes net_b" by (simp add: example_shapes)
  have d: "net_a \<noteq> net_b" by (simp add: net_a_def net_b_def net_4_3_2_def)
  from weights_do_not_matter [OF h, of "1/100" "[4]" 1 1] h d show ?thesis by simp
qed

text \<open>
  C7. For a model with two linear layers of shapes \<open>h \<times> d\<close> and \<open>o \<times> h\<close>,
  \<open>sum_mk_mkp1 = o * h\<close> in both estimators and \<^verbatim>\<open>compute_Tanh_bounds\<close> returns
  \<open>2 * c_p * B_sigma_p\<^sup>2 * o * h\<close>; for shapes \<open>3 \<times> 4\<close>, \<open>2 \<times> 3\<close>, \<open>c_p = 0.01\<close> and
  \<open>B_sigma_p = 1\<close> that is \<open>0.12\<close>.
\<close>

theorem two_layer_sum:
  assumes "linear_shapes model = [(h, d), (o_dim, h)]"
  shows "t_sum_mk_mkp1 (Tanh_run model) = int o_dim * int h \<and>
         compute_Tanh_bounds model c_p input_size input_bounds B_sigma_p =
           2 * c_p * B_sigma_p ^ 2 * (real o_dim * real h) \<and>
         (0 < h \<and> 0 < o_dim \<longrightarrow>
            ReLU_sum_mk_mkp1 model c_p (d # rest) input_bounds = Inr (int o_dim * int h)) \<and>
         (h = 3 \<and> d = 4 \<and> o_dim = 2 \<longrightarrow>
            compute_Tanh_bounds model (1/100) input_size 1 1 = 12/100)"
proof -
  have S: "sum_except_first (linear_shapes model) = int o_dim * int h"
    using assms by (simp add: sum_except_first_def)
  have R: "ReLU_sum_mk_mkp1 model c_p (d # rest) input_bounds = Inr (int o_dim * int h)"
    if "0 < h" "0 < o_dim"
  proof -
    from that assms have "chained d (linear_shapes model)" by simp
    from ReLU_run_chained [OF this, of c_p rest input_bounds] S show ?thesis
      by (auto simp: ReLU_sum_mk_mkp1_def)
  qed
  from S R show ?thesis
    by (simp add: compute_Tanh_bounds_shapes Tanh_run_sum)
qed

theorem two_layer_sum_witness:
  "linear_shapes net_a = [(3, 4), (2, 3)] \<and>
   t_sum_mk_mkp1 (Tanh_run net_a) = 6 \<and>
   compute_Tanh_bounds net_a (1/100) [4] 1 1 = 12/100 \<and>
   ReLU_sum_mk_mkp1 net_a (1/100) [4] 1 = Inr 6"
proof -
  have h: "linear_shapes net_a = [(3, 4), (2, 3)]" by (simp add: example_shapes)
  from two_layer_sum [OF h, of "1/100" "[4]" 1 1 "[]"] h show ?thesis by simp
qed

text \<open>
  C8. For a model with linear layers of shapes \<open>3 \<times> 4\<close> and \<open>2 \<times> 3\<close>, \<open>c_p = 0.01\<close>,
  \<open>input_size = (4,)\<close>, \<open>input_bounds = 1\<close> and \<open>B_sigma_p = 1\<close>,
  \<^verbatim>\<open>compute_ReLU_bounds\<close> starts from the all-ones vector, ends with \<open>B_sigma = 0.04\<close> and
  \<open>sum_mk_mkp1 = 6\<close>, and returns \<open>0.0048\<close> (in exact arithmetic).
\<close>

theorem ReLU_example:
  assumes "linear_shapes model = [(3, 4), (2, 3)]"
  shows "ReLU_init [4] 1 = Inr \<lparr>sample = [1, 1, 1, 1], B_sigma = 0, sum_mk_mkp1 = 0, skip_first = True\<rparr> \<and>
         ReLU_B_sigma model (1/100) [4] 1 = Inr (4/100) \<and>
         ReLU_sum_mk_mkp1 model (1/100) [4] 1 = Inr 6 \<and>
         compute_ReLU_bounds model (1/100) [4] 1 1 = Inr (48/10000)"
proof -
  have I: "ReLU_init [4] 1 = Inr \<lparr>sample = [1, 1, 1, 1], B_sigma = 0, sum_mk_mkp1 = 0, skip_first = True\<rparr>"
    by (simp add: ReLU_init_def scale_def ones_def eval_nat_numeral)
  from assms have "chained 4 (linear_shapes model)" by simp
  from ReLU_run_chained [OF this, of "1/100" "[]" 1] assms I show ?thesis
    by (auto simp: compute_ReLU_bounds_def ReLU_B_sigma_def ReLU_sum_mk_mkp1_def spec_eval)
qed

theorem ReLU_example_witness:
  "linear_shapes net_b = [(3, 4), (2, 3)] \<and>
   ReLU_B_sigma net_b (1/100) [4] 1 = Inr (4/100) \<and>
   ReLU_sum_mk_mkp1 net_b (1/100) [4] 1 = Inr 6 \<and>
   compute_ReLU_bounds net_b (1/100) [4] 1 1 = Inr (48/10000)"
proof -
  have h: "linear_shapes net_b = [(3, 4), (2, 3)]" by (simp add: example_shapes)
  from ReLU_example [OF h] h show ?thesis by simp
qed





end
